theory Spec2Isabelle
  imports Complex_Main
begin

section \<open>Python exceptions and numpy arrays\<close>

text \<open>
  The module \<^verbatim>\<open>nelpy/objects.py\<close> defines two classes, \<^verbatim>\<open>EpochArray\<close> (the
  interval set) and \<^verbatim>\<open>SpikeTrain\<close> (the event sequence), on top of numpy arrays.
  Every \<^verbatim>\<open>raise\<close> of the source, and every exception numpy raises on the paths the
  source can take, is a value \<open>Inl e\<close> of the result type \<open>exn + 'a\<close>.

  Conventions of the embedding:
  \<^item> array elements are \<open>real\<close>: the arithmetic of the source (sums, differences,
    division by the sampling rate) is taken as exact;
  \<^item> \<^verbatim>\<open>warnings.warn\<close> is not modelled: a warning does not change the value returned;
  \<^item> \<^verbatim>\<open>np.argsort\<close> followed by \<^verbatim>\<open>samples[sort_idx]\<close> is the stable sort of the rows by
    their first entry;
  \<^item> a Python list passed where an array is expected is the array numpy makes of it.
\<close>

datatype exn = ValueError string | TypeError string | IndexError string

text \<open>An array is its shape and its elements in row-major order.\<close>

datatype ndarray = NDArray (shape: "nat list") (data: "real list")

definition ndim :: "ndarray \<Rightarrow> nat" where
  "ndim a = length (shape a)"

text \<open>\<^verbatim>\<open>np.array(xs)\<close> for a list of scalars.\<close>

definition vec :: "real list \<Rightarrow> ndarray" where
  "vec xs = NDArray [length xs] xs"

text \<open>\<^verbatim>\<open>len(a)\<close>: the first dimension; a zero-dimensional array has no length.\<close>

definition len_nd :: "ndarray \<Rightarrow> exn + nat" where
  "len_nd a = (case shape a of
      [] \<Rightarrow> Inl (TypeError ''len() of unsized object'')
    | n # _ \<Rightarrow> Inr n)"

text \<open>\<^verbatim>\<open>np.squeeze(a)\<close> drops every axis of length one.\<close>

definition squeeze :: "ndarray \<Rightarrow> ndarray" where
  "squeeze a = NDArray (filter (\<lambda>d. d \<noteq> 1) (shape a)) (data a)"

text \<open>\<^verbatim>\<open>a[..., np.newaxis]\<close> appends an axis of length one.\<close>

definition newaxis :: "ndarray \<Rightarrow> ndarray" where
  "newaxis a = NDArray (shape a @ [1]) (data a)"

text \<open>
  The opening of both constructors and of the duration block (lines 44-48, 62-64,
  545-548): \<^verbatim>\<open>a = np.squeeze(a)\<close>, then \<^verbatim>\<open>a = a[..., np.newaxis]\<close> when the result is
  zero-dimensional.
\<close>

definition squeeze_1d :: "ndarray \<Rightarrow> ndarray" where
  "squeeze_1d a = (let s1 = squeeze a in if ndim s1 = 0 then newaxis s1 else s1)"

text \<open>The first \<open>k\<close> consecutive blocks of \<open>c\<close> elements: the rows of a \<open>(k, c)\<close> array.\<close>

fun chunks :: "nat \<Rightarrow> nat \<Rightarrow> 'a list \<Rightarrow> 'a list list" where
  "chunks 0 c xs = []"
| "chunks (Suc k) c xs = take c xs # chunks k c (drop c xs)"

text \<open>
  \<^verbatim>\<open>a[i]\<close> for a non-negative \<open>i\<close> on a two-dimensional array: row \<open>i\<close>, a vector.
  The source only writes it under the guard \<^verbatim>\<open>samples.ndim == 2\<close>.
\<close>

definition row :: "ndarray \<Rightarrow> nat \<Rightarrow> exn + real list" where
  "row a i = (case shape a of
      [k, c] \<Rightarrow> if i < k then Inr (chunks k c (data a) ! i)
                else Inl (IndexError ''index out of bounds for axis 0'')
    | _ \<Rightarrow> Inl (IndexError ''row of an array that is not two-dimensional''))"

text \<open>
  \<^verbatim>\<open>a[:, j]\<close> for \<open>j\<close> 0 or 1: column \<open>j\<close> of a two-dimensional array. On a
  one-dimensional array numpy raises IndexError (too many indices). Arrays of more than
  two dimensions never reach this expression.
\<close>

definition col :: "ndarray \<Rightarrow> nat \<Rightarrow> exn + real list" where
  "col a j = (case shape a of
      [k, c] \<Rightarrow> if j < c then Inr (map (\<lambda>r. r ! j) (chunks k c (data a)))
                else Inl (IndexError ''index out of bounds for axis 1'')
    | _ \<Rightarrow> Inl (IndexError ''too many indices for array''))"

text \<open>
  \<^verbatim>\<open>np.hstack((x[..., np.newaxis], y[..., np.newaxis]))\<close> for vectors \<open>x\<close> and \<open>y\<close>: the
  two-column array whose rows are the pairs \<open>(x[i], y[i])\<close>; numpy refuses vectors of
  different lengths.
\<close>

definition hstack_columns :: "real list \<Rightarrow> real list \<Rightarrow> exn + ndarray" where
  "hstack_columns xs ys =
     (if length xs = length ys
      then Inr (NDArray [length xs, 2] (concat (map2 (\<lambda>x y. [x, y]) xs ys)))
      else Inl (ValueError ''all the input array dimensions except for the concatenation axis must match exactly''))"

text \<open>\<open>x + y\<close> on two vectors, with numpy's broadcasting of a vector of length one.\<close>

definition add_broadcast :: "real list \<Rightarrow> real list \<Rightarrow> exn + real list" where
  "add_broadcast xs ys =
     (if length xs = length ys then Inr (map2 (\<lambda>x y. x + y) xs ys)
      else if length ys = 1 then Inr (map (\<lambda>x. x + hd ys) xs)
      else if length xs = 1 then Inr (map (\<lambda>y. hd xs + y) ys)
      else Inl (ValueError ''operands could not be broadcast together''))"

text \<open>\<^verbatim>\<open>a / r\<close> and \<^verbatim>\<open>a * r\<close> for a scalar \<open>r\<close>, element by element.\<close>

definition divide_nd :: "ndarray \<Rightarrow> real \<Rightarrow> ndarray" where
  "divide_nd a r = NDArray (shape a) (map (\<lambda>x. x / r) (data a))"

definition times_nd :: "ndarray \<Rightarrow> real \<Rightarrow> ndarray" where
  "times_nd a r = NDArray (shape a) (map (\<lambda>x. x * r) (data a))"

text \<open>
  \<^verbatim>\<open>sort_idx = np.argsort(a[:, 0]); a = a[sort_idx]\<close> on a two-dimensional array: the
  rows in ascending order of their first entry. The shape is unchanged.
\<close>

definition sort_rows :: "ndarray \<Rightarrow> ndarray" where
  "sort_rows a = (case shape a of
      [k, c] \<Rightarrow> NDArray [k, c] (concat (sort_key (\<lambda>r. r ! 0) (chunks k c (data a))))
    | _ \<Rightarrow> a)"

section \<open>EpochArray\<close>

type_synonym meta = "(string \<times> string) list"

record EpochArray =
  samples :: ndarray
  time :: ndarray
  fs :: "real option"
  meta :: "meta option"

text \<open>
  The \<^verbatim>\<open>fs\<close> argument: absent, a scalar, or a value that cannot be compared with
  \<open>0\<close> as a truth value (a list, a string, an array of several elements).
\<close>

datatype fs_arg = FsNone | FsScalar real | FsNonScalar

text \<open>
  Lines 53-59 (and 553-559): the comparison and the \<^verbatim>\<open>raise ValueError\<close> are both
  inside the \<^verbatim>\<open>try\<close>, and the bare \<^verbatim>\<open>except\<close> turns whatever is raised there into
  the TypeError.
\<close>

definition fs_try_body :: "fs_arg \<Rightarrow> exn + real option" where
  "fs_try_body f = (case f of
      FsNone \<Rightarrow> Inr None
    | FsScalar r \<Rightarrow> if r \<le> 0 then Inl (ValueError ''sampling rate must be positive'')
                    else Inr (Some r)
    | FsNonScalar \<Rightarrow> Inl (TypeError ''comparison with 0 is not a truth value''))"

definition check_fs :: "fs_arg \<Rightarrow> exn + real option" where
  "check_fs f = (case f of
      FsNone \<Rightarrow> Inr None
    | _ \<Rightarrow> (case fs_try_body f of
              Inl _ \<Rightarrow> Inl (TypeError ''sampling rate must be a scalar'')
            | Inr v \<Rightarrow> Inr v))"

text \<open>
  Lines 61-78: the \<^verbatim>\<open>duration\<close> argument. The result is the \<^verbatim>\<open>samples\<close> array after
  the block.
\<close>

definition apply_duration :: "ndarray \<Rightarrow> ndarray option \<Rightarrow> exn + ndarray" where
  "apply_duration s duration = (case duration of
      None \<Rightarrow> Inr s
    | Some d0 \<Rightarrow>
        (let d = squeeze_1d d0
         in if ndim s = 2 \<and> ndim d = 1
            then Inl (ValueError ''duration not allowed when using start and stop times'')
            else if hd (shape d) > 1 \<and> ndim s = 1 \<and> hd (shape s) \<noteq> hd (shape d)
            then Inl (ValueError ''must have same number of time and duration samples'')
            else if ndim s = 1 \<and> ndim d = 1
            then (case add_broadcast (data s) (data d) of
                    Inl e \<Rightarrow> Inl e
                  | Inr stop_epoch \<Rightarrow> hstack_columns (data s) stop_epoch)
            else Inr s))"

text \<open>
  Lines 83-85: a two-dimensional array whose second dimension is not 2 is replaced by
  the two-column array made of its rows 0 and 1.
\<close>

definition two_columns :: "ndarray \<Rightarrow> exn + ndarray" where
  "two_columns s =
     (if ndim s = 2 \<and> shape s ! 1 \<noteq> 2
      then (case row s 0 of
              Inl e \<Rightarrow> Inl e
            | Inr r0 \<Rightarrow> (case row s 1 of
                          Inl e \<Rightarrow> Inl e
                        | Inr r1 \<Rightarrow> hstack_columns r0 r1))
      else Inr s)"

text \<open>
  Lines 87-110: the checks on the two columns, the sort and the stored fields. The
  argument \<open>fsv\<close> is the rate after its check.
\<close>

definition EpochArray_store :: "ndarray \<Rightarrow> real option \<Rightarrow> meta option \<Rightarrow> exn + EpochArray" where
  "EpochArray_store s5 fsv meta0 =
     (case col s5 0 of
        Inl e \<Rightarrow> Inl e
      | Inr starts0 \<Rightarrow>
      case col s5 1 of
        Inl e \<Rightarrow> Inl e
      | Inr stops0 \<Rightarrow>
      if length starts0 \<noteq> length stops0
      then Inl (ValueError ''must have the same number of start and stop times'')
      else
      if ndim s5 = 2 \<and> list_ex (\<lambda>(a, b). b - a < 0) (zip starts0 stops0)
      then Inl (ValueError ''start must be less than or equal to stop'')
      else
      let s6 = sort_rows s5
      in Inr \<lparr>samples = s6,
              time = (case fsv of Some r \<Rightarrow> divide_nd s6 r | None \<Rightarrow> s6),
              fs = fsv, meta = meta0\<rparr>)"

text \<open>\<^verbatim>\<open>EpochArray.__init__(samples, fs, duration, meta)\<close>, lines 34-110.\<close>

definition EpochArray_init ::
  "ndarray \<Rightarrow> fs_arg \<Rightarrow> ndarray option \<Rightarrow> meta option \<Rightarrow> exn + EpochArray" where
  "EpochArray_init samples0 fs0 duration meta0 =
     (case len_nd samples0 of
        Inl e \<Rightarrow> Inl e
      | Inr n \<Rightarrow>
      if n = 0
      then Inr \<lparr>samples = vec [], time = vec [], fs = None, meta = None\<rparr>
      else
      let s2 = squeeze_1d samples0
      in
      if ndim s2 > 2 then Inl (ValueError ''samples must be a 1D or a 2D vector'')
      else
      case check_fs fs0 of
        Inl e \<Rightarrow> Inl e
      | Inr fsv \<Rightarrow>
      case apply_duration s2 duration of
        Inl e \<Rightarrow> Inl e
      | Inr s3 \<Rightarrow>
      let s4 = (if ndim s3 = 1 \<and> duration = None then newaxis s3 else s3)
      in
      case two_columns s4 of
        Inl e \<Rightarrow> Inl e
      | Inr s5 \<Rightarrow> EpochArray_store s5 fsv meta0)"

subsection \<open>Properties\<close>

text \<open>
  \<^verbatim>\<open>isempty\<close> is \<^verbatim>\<open>len(self.time) == 0\<close>. The constructor stores in \<^verbatim>\<open>time\<close> either the
  empty vector or a two-column array, never a zero-dimensional array.
\<close>

definition isempty :: "EpochArray \<Rightarrow> bool" where
  "isempty e = (case shape (time e) of [] \<Rightarrow> False | n # _ \<Rightarrow> n = 0)"

definition n_epochs :: "EpochArray \<Rightarrow> exn + nat" where
  "n_epochs e =
     (if isempty e then Inr 0
      else case col (time e) 0 of Inl x \<Rightarrow> Inl x | Inr c \<Rightarrow> Inr (length c))"



definition sampleStarts :: "EpochArray \<Rightarrow> exn + real list" where
  "sampleStarts e = (if isempty e then Inr [] else col (samples e) 0)"

definition sampleStops :: "EpochArray \<Rightarrow> exn + real list" where
  "sampleStops e = (if isempty e then Inr [] else col (samples e) 1)"

text \<open>The stored rate, passed on as the \<^verbatim>\<open>fs\<close> argument of a constructor.\<close>

definition fs_of :: "real option \<Rightarrow> fs_arg" where
  "fs_of f = (case f of None \<Rightarrow> FsNone | Some r \<Rightarrow> FsScalar r)"

text \<open>
  The rate setter, lines 179-193: here only the comparison is inside the \<^verbatim>\<open>try\<close>, and
  the ValueError is raised after it.
\<close>

definition fs_setter :: "EpochArray \<Rightarrow> fs_arg \<Rightarrow> exn + EpochArray" where
  "fs_setter e val = (case val of
      FsNonScalar \<Rightarrow> Inl (TypeError ''sampling rate must be a scalar'')
    | FsNone \<Rightarrow> Inl (TypeError ''sampling rate must be a scalar'')
    | FsScalar r \<Rightarrow>
        if r \<le> 0 then Inl (ValueError ''sampling rate must be positive'')
        else Inr (e\<lparr>fs := Some r, time := divide_nd (samples e) r\<rparr>))"

subsection \<open>copy and merge\<close>

text \<open>\<^verbatim>\<open>copy\<close>, lines 286-290. The two columns of one array have the same length.\<close>

definition copy :: "EpochArray \<Rightarrow> exn + EpochArray" where
  "copy e =
     (case sampleStarts e of
        Inl x \<Rightarrow> Inl x
      | Inr new_starts \<Rightarrow>
     case sampleStops e of
        Inl x \<Rightarrow> Inl x
      | Inr new_stops \<Rightarrow>
     EpochArray_init (vec new_starts) (fs_of (fs e))
       (Some (vec (map2 (\<lambda>b a. b - a) new_stops new_starts))) (meta e))"

text \<open>
  One pass of the loop of \<^verbatim>\<open>merge\<close> (lines 385-390) at index \<open>i\<close>; the state is
  \<open>(new_starts, new_stops, next_stop)\<close>. The loop runs over
  \<open>i < epoch.time.shape[0] - 1\<close>, so \<open>i\<close> and \<open>i + 1\<close> are within the columns and
  \<open>i\<close> is within \<open>to_merge\<close>.
\<close>

definition merge_step ::
  "real list \<Rightarrow> real list \<Rightarrow> bool list \<Rightarrow> nat \<Rightarrow>
   real list \<times> real list \<times> real \<Rightarrow> real list \<times> real list \<times> real" where
  "merge_step sstarts sstops to_merge i st =
     (case st of (new_starts, new_stops, next_stop) \<Rightarrow>
        (let this_stop = sstops ! i;
             next_stop' = max next_stop this_stop
         in if \<not> to_merge ! i
            then (new_starts @ [sstarts ! (i + 1)], new_stops @ [next_stop'], next_stop')
            else (new_starts, new_stops, next_stop')))"

text \<open>
  \<^verbatim>\<open>merge(gap)\<close>, lines 355-397. On an empty copy \<^verbatim>\<open>_sampleStops\<close> is a Python list
  and adding \<open>gap\<close> to it is a TypeError; on an array without rows the index 0 is out
  of bounds.
\<close>

definition merge :: "EpochArray \<Rightarrow> real \<Rightarrow> exn + EpochArray" where
  "merge e gap0 =
     (if isempty e then Inr e
      else if gap0 < 0 then Inl (ValueError ''gap cannot be negative'')
      else
      case copy e of
        Inl x \<Rightarrow> Inl x
      | Inr epoch \<Rightarrow>
      let gap = (case fs e of None \<Rightarrow> gap0 | Some r \<Rightarrow> gap0 * r)
      in
      case sampleStarts epoch of
        Inl x \<Rightarrow> Inl x
      | Inr sstarts \<Rightarrow>
      case sampleStops epoch of
        Inl x \<Rightarrow> Inl x
      | Inr sstops \<Rightarrow>
      if isempty epoch then Inl (TypeError ''can only concatenate list (not float) to list'')
      else
      if sstarts = [] \<or> sstops = [] then Inl (IndexError ''index 0 is out of bounds'')
      else
      let to_merge = map2 (\<lambda>stop start. stop + gap - start \<ge> 0) (butlast sstops) (tl sstarts);
          st = fold (merge_step sstarts sstops to_merge)
                 [0 ..< hd (shape (time epoch)) - 1] ([hd sstarts], [], hd sstops);
          new_starts = fst st;
          new_stops = fst (snd st) @ [last sstops]
      in EpochArray_init (vec new_starts) (fs_of (fs e))
           (Some (vec (map2 (\<lambda>b a. b - a) new_stops new_starts))) (meta e))"

subsection \<open>intersect\<close>

text \<open>
  The rows of \<^verbatim>\<open>time\<close> as pairs, for the loops \<^verbatim>\<open>for aa in epoch_a.time\<close>: an empty
  vector gives no row.
\<close>

definition time_rows :: "EpochArray \<Rightarrow> (real \<times> real) list" where
  "time_rows e = (case shape (time e) of
      [k, c] \<Rightarrow> map (\<lambda>r. (r ! 0, r ! 1)) (chunks k c (data (time e)))
    | _ \<Rightarrow> [])"

text \<open>
  The body of the double loop, lines 316-337: what one pair \<open>(aa, bb)\<close> appends to
  \<open>new_starts\<close> and \<open>new_stops\<close> (nothing, or one value to each).
\<close>

definition classify :: "bool \<Rightarrow> real \<times> real \<Rightarrow> real \<times> real \<Rightarrow> (real \<times> real) list" where
  "classify boundaries aa bb =
     (case aa of (a0, a1) \<Rightarrow> case bb of (b0, b1) \<Rightarrow>
      if (a0 \<le> b0 \<and> b0 < a1) \<and> (a0 < b1 \<and> b1 \<le> a1) then [(b0, b1)]
      else if (a0 < b0 \<and> b0 < a1) \<and> (a0 < b1 \<and> b1 > a1)
        then [(b0, if boundaries then a1 else b1)]
      else if (a0 > b0 \<and> b0 < a1) \<and> (a0 < b1 \<and> b1 < a1)
        then [(if boundaries then a0 else b0, b1)]
      else if (a0 \<ge> b0 \<and> b0 < a1) \<and> (a0 < b1 \<and> b1 \<ge> a1)
        then [if boundaries then (a0, a1) else (b0, b1)]
      else [])"

text \<open>\<^verbatim>\<open>np.unique\<close>: the distinct values in ascending order.\<close>

definition np_unique :: "real list \<Rightarrow> real list" where
  "np_unique xs = sort (remdups xs)"

text \<open>
  \<^verbatim>\<open>intersect(epoch, boundaries, meta)\<close>, lines 292-353. The value carries the pairs
  that the double loop emitted (\<open>emitted\<close>) next to the EpochArray returned.
\<close>

definition intersect_emitted ::
  "EpochArray \<Rightarrow> EpochArray \<Rightarrow> bool \<Rightarrow> exn + (real \<times> real) list" where
  "intersect_emitted self epoch boundaries =
     (case copy self of Inl x \<Rightarrow> Inl x | Inr ca \<Rightarrow>
      case merge ca 0 of Inl x \<Rightarrow> Inl x | Inr epoch_a \<Rightarrow>
      case copy epoch of Inl x \<Rightarrow> Inl x | Inr cb \<Rightarrow>
      case merge cb 0 of Inl x \<Rightarrow> Inl x | Inr epoch_b \<Rightarrow>
      Inr (concat (map (\<lambda>aa. concat (map (\<lambda>bb. classify boundaries aa bb)
                                       (time_rows epoch_b)))
                       (time_rows epoch_a))))"

definition intersect ::
  "EpochArray \<Rightarrow> EpochArray \<Rightarrow> bool \<Rightarrow> meta option \<Rightarrow> exn + EpochArray" where
  "intersect self epoch boundaries meta0 =
     (if isempty self \<or> isempty epoch
      then EpochArray_init (vec []) FsNone (Some (vec [])) meta0
      else
      case intersect_emitted self epoch boundaries of
        Inl x \<Rightarrow> Inl x
      | Inr emitted \<Rightarrow>
      let new_starts = (if \<not> boundaries then np_unique (map fst emitted) else map fst emitted);
          new_stops = (if \<not> boundaries then np_unique (map snd emitted) else map snd emitted)
      in
      case hstack_columns new_starts new_stops of
        Inl x \<Rightarrow> Inl x
      | Inr pairs \<Rightarrow>
      if fs self \<noteq> fs epoch then EpochArray_init pairs FsNone None meta0
      else case fs self of
             None \<Rightarrow> EpochArray_init pairs FsNone None meta0
           | Some r \<Rightarrow> EpochArray_init (times_nd pairs r) (FsScalar r) None meta0)"

subsection \<open>expand and shrink\<close>






subsection \<open>Indexing\<close>

text \<open>
  Python's slice \<open>start:stop:step\<close> on a sequence of length \<open>n\<close>: the indices it
  selects, in order. An index below \<open>-n\<close> or above \<open>n\<close> is clamped, a negative index
  counts from the end, and a step of zero is a ValueError.
\<close>

definition adjust_index :: "int \<Rightarrow> nat \<Rightarrow> int \<Rightarrow> int" where
  "adjust_index step n i =
     (if i < 0
      then (if i + int n < 0 then (if step < 0 then - 1 else 0) else i + int n)
      else if i \<ge> int n then (if step < 0 then int n - 1 else int n)
      else i)"

definition slice_indices ::
  "int option \<Rightarrow> int option \<Rightarrow> int option \<Rightarrow> nat \<Rightarrow> exn + nat list" where
  "slice_indices start stop step0 n =
     (let step = (case step0 of None \<Rightarrow> 1 | Some s \<Rightarrow> s)
      in if step = 0 then Inl (ValueError ''slice step cannot be zero'')
      else
      let lo = (case start of
                  None \<Rightarrow> if step < 0 then int n - 1 else 0
                | Some i \<Rightarrow> adjust_index step n i);
          hi = (case stop of
                  None \<Rightarrow> if step < 0 then - 1 else int n
                | Some i \<Rightarrow> adjust_index step n i);
          cnt = (if step < 0
                 then (if hi < lo then (lo - hi - 1) div (- step) + 1 else 0)
                 else (if lo < hi then (hi - lo - 1) div step + 1 else 0))
      in Inr (map (\<lambda>k. nat (lo + int k * step)) [0 ..< nat cnt]))"

text \<open>\<^verbatim>\<open>a[i, :]\<close> for an integer \<open>i\<close>, which may be negative.\<close>

definition row_int :: "ndarray \<Rightarrow> int \<Rightarrow> exn + real list" where
  "row_int a i = (case shape a of
      [k, c] \<Rightarrow>
        (let j = (if i < 0 then i + int k else i)
         in if 0 \<le> j \<and> j < int k then Inr (chunks k c (data a) ! nat j)
            else Inl (IndexError ''index out of bounds for axis 0''))
    | _ \<Rightarrow> Inl (IndexError ''too many indices for array''))"

text \<open>\<^verbatim>\<open>a[lo:hi, :]\<close>: the rows from \<open>lo\<close> up to \<open>hi\<close>, a two-dimensional array.\<close>

definition slice_rows :: "ndarray \<Rightarrow> int \<Rightarrow> int \<Rightarrow> exn + ndarray" where
  "slice_rows a lo hi = (case shape a of
      [k, c] \<Rightarrow>
        (case slice_indices (Some lo) (Some hi) None k of
           Inl x \<Rightarrow> Inl x
         | Inr idx \<Rightarrow> Inr (NDArray [length idx, c]
                             (concat (map (\<lambda>i. chunks k c (data a) ! i) idx))))
    | _ \<Rightarrow> Inl (IndexError ''too many indices for array''))"

text \<open>\<^verbatim>\<open>np.array([a])\<close>: the array \<open>a\<close> under one more leading axis of length one.\<close>

definition boxed :: "ndarray \<Rightarrow> ndarray" where
  "boxed a = NDArray (1 # shape a) (data a)"

datatype index =
    IdxEpoch EpochArray
  | IdxInt int
  | IdxSlice "int option" "int option" "int option"
  | IdxOther

text \<open>
  \<^verbatim>\<open>EpochArray.__getitem__\<close>, lines 122-157. In the integer branch the bare
  \<^verbatim>\<open>except\<close> covers the whole construction. In the slice branch only \<^verbatim>\<open>idx.start\<close> and
  \<^verbatim>\<open>idx.stop\<close> are read.
\<close>

definition EpochArray_getitem :: "EpochArray \<Rightarrow> index \<Rightarrow> exn + EpochArray" where
  "EpochArray_getitem self idx = (case idx of
      IdxEpoch other \<Rightarrow>
        if isempty other then EpochArray_init (vec []) FsNone None None
        else
        (case (if fs other \<noteq> fs self
               then (case fs self of
                       None \<Rightarrow> Inl (TypeError ''unsupported operand type(s) for *'')
                     | Some r \<Rightarrow>
                         (case EpochArray_init (times_nd (time other) r) (FsScalar r) None None of
                            Inl x \<Rightarrow> Inl x
                          | Inr conv \<Rightarrow> intersect self conv True None))
               else intersect self other True None) of
           Inl x \<Rightarrow> Inl x
         | Inr epoch \<Rightarrow>
             if isempty epoch then EpochArray_init (vec []) FsNone None None
             else Inr epoch)
    | IdxInt i \<Rightarrow>
        (case (case row_int (samples self) i of
                 Inl x \<Rightarrow> Inl x
               | Inr r \<Rightarrow> EpochArray_init (boxed (vec r)) (fs_of (fs self)) None (meta self)) of
           Inl _ \<Rightarrow> EpochArray_init (vec []) FsNone None None
         | Inr epoch \<Rightarrow> Inr epoch)
    | IdxSlice start0 stop0 step0 \<Rightarrow>
        (let start = (case start0 of None \<Rightarrow> 0 | Some i \<Rightarrow> i)
         in case n_epochs self of
              Inl x \<Rightarrow> Inl x
            | Inr n \<Rightarrow>
         if start \<ge> int n then EpochArray_init (vec []) FsNone None None
         else
         let stop = (case stop0 of None \<Rightarrow> - 1 | Some i \<Rightarrow> min (i - 1) (int n - 1))
         in case slice_rows (samples self) start (stop + 1) of
              Inl x \<Rightarrow> Inl x
            | Inr sub \<Rightarrow> EpochArray_init (boxed sub) (fs_of (fs self)) None (meta self))
    | IdxOther \<Rightarrow> Inl (TypeError ''unsupported subsctipting type''))"

section \<open>SpikeTrain\<close>

text \<open>
  \<^verbatim>\<open>samples\<close> and \<^verbatim>\<open>time\<close> of a SpikeTrain are vectors: the constructor refuses
  any other dimension.
\<close>

record SpikeTrain =
  st_samples :: "real list"
  st_time :: "real list"
  support :: EpochArray
  st_fs :: "real option"
  label :: "string option"
  cell_type :: "string option"
  st_meta :: "meta option"

datatype label_arg = LabelNone | LabelStr string | LabelOther

text \<open>
  Lines 576-581 and 624-629: for each point, whether its time lies in some row of the
  support. \<^verbatim>\<open>np.column_stack\<close> of an empty list is a ValueError.
\<close>

definition in_support :: "EpochArray \<Rightarrow> real list \<Rightarrow> exn + bool list" where
  "in_support spt ts =
     (if time_rows spt = [] then Inl (ValueError ''need at least one array to concatenate'')
      else Inr (map (\<lambda>t. list_ex (\<lambda>(t_start, t_stop). t \<ge> t_start \<and> t \<le> t_stop)
                                  (time_rows spt)) ts))"

text \<open>\<^verbatim>\<open>a[mask]\<close> for a vector and a boolean vector of the same length.\<close>

definition masked :: "real list \<Rightarrow> bool list \<Rightarrow> real list" where
  "masked xs keep = map fst (filter snd (zip xs keep))"

text \<open>\<^verbatim>\<open>SpikeTrain.__init__\<close>, lines 544-597.\<close>

definition SpikeTrain_init ::
  "ndarray \<Rightarrow> fs_arg \<Rightarrow> EpochArray option \<Rightarrow> label_arg \<Rightarrow> string option \<Rightarrow> meta option
   \<Rightarrow> exn + SpikeTrain" where
  "SpikeTrain_init samples0 fs0 support0 label0 cell_type0 meta0 =
     (let s2 = squeeze_1d samples0
      in
      if ndim s2 \<noteq> 1 then Inl (ValueError ''samples must be a vector'')
      else
      case check_fs fs0 of
        Inl x \<Rightarrow> Inl x
      | Inr fsv \<Rightarrow>
      if label0 = LabelOther then Inl (ValueError ''label must be a string'')
      else
      let smp = data s2;
          tm = (case fsv of Some r \<Rightarrow> map (\<lambda>x. x / r) smp | None \<Rightarrow> smp);
          lab = (case label0 of LabelStr l \<Rightarrow> Some l | _ \<Rightarrow> None)
      in
      if hd (shape s2) > 0
      then (case support0 of
              None \<Rightarrow>
                (case EpochArray_init (vec [0, last smp]) fs0 None None of
                   Inl x \<Rightarrow> Inl x
                 | Inr spt \<Rightarrow>
                     Inr \<lparr>st_samples = smp, st_time = tm, support = spt, st_fs = fsv,
                          label = lab, cell_type = cell_type0, st_meta = meta0\<rparr>)
            | Some spt \<Rightarrow>
                (case in_support spt tm of
                   Inl x \<Rightarrow> Inl x
                 | Inr indices \<Rightarrow>
                     Inr \<lparr>st_samples = masked smp indices, st_time = masked tm indices,
                          support = spt, st_fs = fsv,
                          label = lab, cell_type = cell_type0, st_meta = meta0\<rparr>))
      else (case EpochArray_init (vec []) FsNone None None of
              Inl x \<Rightarrow> Inl x
            | Inr spt \<Rightarrow>
                Inr \<lparr>st_samples = smp, st_time = tm, support = spt, st_fs = fsv,
                     label = lab, cell_type = cell_type0, st_meta = meta0\<rparr>))"

definition n_spikes :: "SpikeTrain \<Rightarrow> nat" where
  "n_spikes st = length (st_time st)"

definition label_of :: "string option \<Rightarrow> label_arg" where
  "label_of l = (case l of None \<Rightarrow> LabelNone | Some s \<Rightarrow> LabelStr s)"

text \<open>\<^verbatim>\<open>xs[i]\<close> for an integer \<open>i\<close>, which may be negative, on a vector.\<close>

definition item_int :: "real list \<Rightarrow> int \<Rightarrow> exn + real" where
  "item_int xs i =
     (let n = int (length xs); j = (if i < 0 then i + n else i)
      in if 0 \<le> j \<and> j < n then Inr (xs ! nat j)
         else Inl (IndexError ''index out of bounds for axis 0''))"

text \<open>\<^verbatim>\<open>SpikeTrain.__getitem__\<close>, lines 617-675.\<close>

definition SpikeTrain_getitem :: "SpikeTrain \<Rightarrow> index \<Rightarrow> exn + SpikeTrain" where
  "SpikeTrain_getitem self idx = (case idx of
      IdxEpoch other \<Rightarrow>
        if isempty other then SpikeTrain_init (vec []) FsNone None LabelNone None None
        else
        (case intersect (support self) other True None of
           Inl x \<Rightarrow> Inl x
         | Inr epoch \<Rightarrow>
             if isempty epoch then SpikeTrain_init (vec []) FsNone None LabelNone None None
             else
             (case in_support epoch (st_time self) of
                Inl x \<Rightarrow> Inl x
              | Inr indices \<Rightarrow>
                  SpikeTrain_init (vec (masked (st_samples self) indices)) (fs_of (st_fs self))
                    (Some epoch) (label_of (label self)) (cell_type self) (st_meta self)))
    | IdxInt i \<Rightarrow>
        (case (case item_int (st_samples self) i of
                 Inl x \<Rightarrow> Inl x
               | Inr v \<Rightarrow> EpochArray_init (vec [v, v]) (fs_of (st_fs self)) None (st_meta self)) of
           Inl _ \<Rightarrow>
             (case EpochArray_init (vec []) FsNone None None of
                Inl x \<Rightarrow> Inl x
              | Inr epoch \<Rightarrow> SpikeTrain_init (vec []) FsNone (Some epoch) LabelNone None None)
         | Inr epoch \<Rightarrow>
             (case item_int (st_samples self) i of
                Inl x \<Rightarrow> Inl x
              | Inr v \<Rightarrow>
                  SpikeTrain_init (NDArray [] [v]) (fs_of (st_fs self)) (Some epoch)
                    (label_of (label self)) (cell_type self) (st_meta self)))
    | IdxSlice start0 stop0 step0 \<Rightarrow>
        (let start = (case start0 of None \<Rightarrow> 0 | Some i \<Rightarrow> i)
         in
         if start \<ge> int (n_spikes self)
         then SpikeTrain_init (vec []) (fs_of (st_fs self)) None
                (label_of (label self)) (cell_type self) (st_meta self)
         else
         let stop = (case stop0 of
                       None \<Rightarrow> - 1
                     | Some i \<Rightarrow> min (i - 1) (int (n_spikes self) - 1))
         in
         case item_int (st_samples self) start of
           Inl x \<Rightarrow> Inl x
         | Inr a \<Rightarrow>
         case item_int (st_samples self) stop of
           Inl x \<Rightarrow> Inl x
         | Inr b \<Rightarrow>
         case EpochArray_init (vec [a, b]) (fs_of (st_fs self)) None (st_meta self) of
           Inl x \<Rightarrow> Inl x
         | Inr epoch \<Rightarrow>
         case slice_indices start0 stop0 step0 (length (st_samples self)) of
           Inl x \<Rightarrow> Inl x
         | Inr sel \<Rightarrow>
         SpikeTrain_init (vec (map (\<lambda>k. st_samples self ! k) sel)) (fs_of (st_fs self))
           (Some epoch) (label_of (label self)) (cell_type self) (st_meta self))
    | IdxOther \<Rightarrow> Inl (TypeError ''unsupported subsctipting type''))"


section \<open>Vocabulary of the properties\<close>

text \<open>The two-column array whose rows are the given pairs.\<close>

definition of_pairs :: "(real \<times> real) list \<Rightarrow> ndarray" where
  "of_pairs ps = NDArray [length ps, 2] (concat (map (\<lambda>p. [fst p, snd p]) ps))"

text \<open>The rows of \<^verbatim>\<open>samples\<close> as pairs, as \<open>time_rows\<close> reads \<^verbatim>\<open>time\<close>.\<close>

definition sample_rows :: "EpochArray \<Rightarrow> (real \<times> real) list" where
  "sample_rows e = (case shape (samples e) of
      [k, c] \<Rightarrow> map (\<lambda>r. (r ! 0, r ! 1)) (chunks k c (data (samples e)))
    | _ \<Rightarrow> [])"

text \<open>The EpochArray without rate and meta whose intervals are the given pairs.\<close>

definition epochs_of :: "(real \<times> real) list \<Rightarrow> EpochArray" where
  "epochs_of ps = \<lparr>samples = of_pairs ps, time = of_pairs ps, fs = None, meta = None\<rparr>"

text \<open>The value of \<^verbatim>\<open>EpochArray([])\<close>.\<close>

definition empty_epochs :: EpochArray where
  "empty_epochs = \<lparr>samples = vec [], time = vec [], fs = None, meta = None\<rparr>"


text \<open>
  No interval of the list starts within \<open>gap\<close> of the stop of an interval before it.
\<close>

fun starts_after :: "real \<Rightarrow> (real \<times> real) list \<Rightarrow> bool" where
  "starts_after t [] = True"
| "starts_after t (q # qs) = (t < fst q \<and> starts_after t qs)"

fun gap_separated :: "real \<Rightarrow> (real \<times> real) list \<Rightarrow> bool" where
  "gap_separated g [] = True"
| "gap_separated g (p # ps) = (starts_after (snd p + g) ps \<and> gap_separated g ps)"

text \<open>A stored rate is absent or positive.\<close>

definition valid_rate :: "real option \<Rightarrow> bool" where
  "valid_rate v = (case v of None \<Rightarrow> True | Some r \<Rightarrow> 0 < r)"

text \<open>
  The invariant of an EpochArray: \<^verbatim>\<open>time\<close> is \<^verbatim>\<open>samples\<close> divided by the rate, and
  \<^verbatim>\<open>samples\<close> is the empty vector or a well-formed two-column array whose rows are
  sorted by start and have start \<open>\<le>\<close> stop.
\<close>

definition wf_epochs :: "EpochArray \<Rightarrow> bool" where
  "wf_epochs e =
     (valid_rate (fs e)
      \<and> time e = (case fs e of None \<Rightarrow> samples e | Some r \<Rightarrow> divide_nd (samples e) r)
      \<and> (samples e = vec []
         \<or> (samples e = of_pairs (sample_rows e)
            \<and> sorted (map fst (sample_rows e))
            \<and> list_all (\<lambda>(a, b). a \<le> b) (sample_rows e))))"


text \<open>The SpikeTrain without points: no sample, the support \<^verbatim>\<open>EpochArray([])\<close>.\<close>

definition empty_spikes :: "real option \<Rightarrow> string option \<Rightarrow> string option \<Rightarrow> meta option \<Rightarrow> SpikeTrain" where
  "empty_spikes v l c m =
     \<lparr>st_samples = [], st_time = [], support = empty_epochs, st_fs = v,
      label = l, cell_type = c, st_meta = m\<rparr>"

section \<open>Arrays of pairs and the constructor\<close>

lemma chunks_pairs:
  "chunks (length ps) 2 (concat (map (\<lambda>p. [fst p, snd p]) ps)) = map (\<lambda>p. [fst p, snd p]) ps"
  by (induction ps) auto

lemma shape_of_pairs [simp]: "shape (of_pairs ps) = [length ps, 2]"
  by (simp add: of_pairs_def)

lemma col_of_pairs0: "col (of_pairs ps) 0 = Inr (map fst ps)"
  by (simp add: col_def of_pairs_def chunks_pairs)

lemma col_of_pairs1: "col (of_pairs ps) (Suc 0) = Inr (map snd ps)"
  by (simp add: col_def of_pairs_def chunks_pairs)

lemma hstack_columns_eq:
  "length xs = length ys \<Longrightarrow> hstack_columns xs ys = Inr (of_pairs (zip xs ys))"
  by (simp add: hstack_columns_def of_pairs_def split_def)

lemma insort_key_map:
  "insort_key f (g x) (map g ys) = map g (insort_key (\<lambda>y. f (g y)) x ys)"
  by (induction ys) auto

lemma sort_key_map: "sort_key f (map g xs) = map g (sort_key (\<lambda>y. f (g y)) xs)"
  by (induction xs) (auto simp: insort_key_map)

lemma sort_rows_of_pairs: "sort_rows (of_pairs ps) = of_pairs (sort_key fst ps)"
  by (simp add: sort_rows_def of_pairs_def chunks_pairs sort_key_map)

lemma rows_of_pairs:
  "map (\<lambda>r. (r ! 0, r ! Suc 0)) (chunks (length ps) 2 (data (of_pairs ps))) = ps"
  by (simp add: of_pairs_def chunks_pairs comp_def)

lemma divide_of_pairs: "divide_nd (of_pairs ps) r = of_pairs (map (\<lambda>p. (fst p / r, snd p / r)) ps)"
proof -
  have "map (\<lambda>x. x / r) (concat (map (\<lambda>p. [fst p, snd p]) ps))
        = concat (map (\<lambda>p. [fst p, snd p]) (map (\<lambda>p. (fst p / r, snd p / r)) ps))"
    by (induction ps) auto
  then show ?thesis by (simp add: divide_nd_def of_pairs_def)
qed

lemma sample_rows_of_pairs:
  "samples e = of_pairs ps \<Longrightarrow> sample_rows e = ps"
  by (simp add: sample_rows_def rows_of_pairs)

lemma time_rows_of_pairs:
  "time e = of_pairs ps \<Longrightarrow> time_rows e = ps"
  by (simp add: time_rows_def rows_of_pairs)

lemma store_of_pairs:
  "EpochArray_store (of_pairs ps) v m =
     (if list_ex (\<lambda>(a, b). b - a < 0) ps
      then Inl (ValueError ''start must be less than or equal to stop'')
      else Inr \<lparr>samples = of_pairs (sort_key fst ps),
                time = (case v of Some r \<Rightarrow> divide_nd (of_pairs (sort_key fst ps)) r
                                 | None \<Rightarrow> of_pairs (sort_key fst ps)),
                fs = v, meta = m\<rparr>)"
  by (simp add: EpochArray_store_def col_of_pairs0 col_of_pairs1 zip_map_fst_snd
      sort_rows_of_pairs ndim_def Let_def)


lemma squeeze_1d_vec: "squeeze_1d (vec xs) = vec xs"
  by (cases "length xs = 1") (auto simp: squeeze_1d_def squeeze_def vec_def ndim_def newaxis_def Let_def)

lemma len_vec: "len_nd (vec xs) = Inr (length xs)"
  by (simp add: len_nd_def vec_def)

lemma init_steps:
  assumes "len_nd s = Inr n" and "n \<noteq> 0" and "squeeze_1d s = s2" and "ndim s2 \<le> 2"
    and "check_fs f = Inr v" and "apply_duration s2 d = Inr s3"
    and "two_columns (if ndim s3 = 1 \<and> d = None then newaxis s3 else s3) = Inr s5"
  shows "EpochArray_init s f d m = EpochArray_store s5 v m"
  using assms by (simp add: EpochArray_init_def)

lemma ndim_vec: "ndim (vec xs) = 1"
  by (simp add: vec_def ndim_def)



lemma two_columns_column2: "two_columns (newaxis (vec [a, b])) = Inr (of_pairs [(a, b)])"
proof -
  have "chunks 2 (Suc 0) [a, b] ! 0 = [a]" "chunks 2 (Suc 0) [a, b] ! Suc 0 = [b]"
    by (simp_all add: numeral_2_eq_2)
  then show ?thesis
    by (simp add: two_columns_def newaxis_def vec_def ndim_def row_def hstack_columns_eq)
qed








lemma init_two_vector:
  assumes "check_fs f = Inr v"
  shows "EpochArray_init (vec [a, b]) f None m = EpochArray_store (of_pairs [(a, b)]) v m"
proof (rule init_steps [where n = 2 and ?s2.0 = "vec [a, b]" and ?s3.0 = "vec [a, b]"])
  show "ndim (vec [a, b]) \<le> 2"
    by (simp add: vec_def ndim_def)
  show "two_columns (if ndim (vec [a, b]) = 1 \<and> (None :: ndarray option) = None
          then newaxis (vec [a, b]) else vec [a, b]) = Inr (of_pairs [(a, b)])"
    by (simp add: two_columns_column2 ndim_vec)
qed (simp_all add: assms len_vec squeeze_1d_vec apply_duration_def)

lemma init_empty: "EpochArray_init (vec []) f d m = Inr empty_epochs"
  by (simp add: EpochArray_init_def len_nd_def vec_def empty_epochs_def)

lemma check_fs_valid: "check_fs f = Inr v \<Longrightarrow> valid_rate v"
  by (cases f) (auto simp: check_fs_def fs_try_body_def valid_rate_def split: if_splits)

lemma check_fs_of: "valid_rate v \<Longrightarrow> check_fs (fs_of v) = Inr v"
  by (cases v) (auto simp: check_fs_def fs_try_body_def valid_rate_def fs_of_def)















lemma sorted_scaled:
  assumes "sorted (map fst ps)" and "0 < (r :: real)"
  shows "sorted (map fst (map (\<lambda>p. (fst p / r, snd p / r)) ps))"
  using assms by (induction ps) (auto simp: divide_right_mono)


lemma valid_scaled:
  assumes "list_all (\<lambda>(a, b). a \<le> b) ps" and "0 < (r :: real)"
  shows "list_all (\<lambda>(a, b). a \<le> b) (map (\<lambda>p. (fst p / r, snd p / r)) ps)"
  using assms by (auto simp: list_all_iff divide_right_mono)

text \<open>The time rows of a well-formed EpochArray, from its sample rows.\<close>

lemma wf_time_rows:
  assumes "wf_epochs e"
  shows "time_rows e = (case fs e of None \<Rightarrow> sample_rows e
                        | Some r \<Rightarrow> map (\<lambda>p. (fst p / r, snd p / r)) (sample_rows e))"
proof (cases "samples e = vec []")
  case True
  with assms have "time e = vec []"
    by (auto simp: wf_epochs_def divide_nd_def vec_def split: option.splits)
  with True show ?thesis
    by (simp add: time_rows_def sample_rows_def vec_def split: option.splits)
next
  case False
  with assms have s: "samples e = of_pairs (sample_rows e)"
    by (simp add: wf_epochs_def)
  show ?thesis
  proof (cases "fs e")
    case None
    with assms s have "time e = of_pairs (sample_rows e)"
      by (simp add: wf_epochs_def)
    then show ?thesis
      by (simp add: None time_rows_of_pairs)
  next
    case (Some r)
    with assms have "time e = divide_nd (samples e) r"
      by (simp add: wf_epochs_def)
    with s have "time e = of_pairs (map (\<lambda>p. (fst p / r, snd p / r)) (sample_rows e))"
      by (simp add: divide_of_pairs)
    then show ?thesis
      by (simp add: Some time_rows_of_pairs)
  qed
qed

lemma wf_rows_sorted_valid:
  assumes "wf_epochs e"
  shows "sorted (map fst (sample_rows e))" and "list_all (\<lambda>(a, b). a \<le> b) (sample_rows e)"
    and "sorted (map fst (time_rows e))" and "list_all (\<lambda>(a, b). a \<le> b) (time_rows e)"
proof -
  show 1: "sorted (map fst (sample_rows e))"
    using assms by (auto simp: wf_epochs_def sample_rows_def vec_def)
  show 2: "list_all (\<lambda>(a, b). a \<le> b) (sample_rows e)"
    using assms by (auto simp: wf_epochs_def sample_rows_def vec_def)
  from assms have r: "valid_rate (fs e)"
    by (simp add: wf_epochs_def)
  show "sorted (map fst (time_rows e))"
    using 1 r sorted_scaled unfolding wf_time_rows [OF assms]
    by (auto simp: valid_rate_def split: option.splits)
  show "list_all (\<lambda>(a, b). a \<le> b) (time_rows e)"
    using 2 r valid_scaled unfolding wf_time_rows [OF assms]
    by (auto simp: valid_rate_def split: option.splits)
qed




section \<open>Well-formed EpochArrays\<close>

lemma shape_time:
  assumes "wf_epochs e"
  shows "shape (time e) = shape (samples e)"
  using assms by (auto simp: wf_epochs_def divide_nd_def split: option.splits)

lemma wf_nonempty:
  assumes "wf_epochs e" and "\<not> isempty e"
  shows "sample_rows e \<noteq> []" and "samples e = of_pairs (sample_rows e)"
proof -
  from assms have ne: "samples e \<noteq> vec []"
    by (auto simp: isempty_def shape_time vec_def)
  with assms(1) show s: "samples e = of_pairs (sample_rows e)"
    by (simp add: wf_epochs_def)
  from assms have "shape (samples e) \<noteq> [0, 2]"
    by (auto simp: isempty_def shape_time)
  with s show "sample_rows e \<noteq> []"
    by (metis length_0_conv shape_of_pairs)
qed






lemma wf_time_of_pairs:
  assumes "wf_epochs e" and "\<not> isempty e"
  shows "time e = of_pairs (time_rows e)" and "time_rows e \<noteq> []"
    and "list_all (\<lambda>(a, b). a \<le> b) (time_rows e)"
proof -
  note ne = wf_nonempty [OF assms]
  show "time e = of_pairs (time_rows e)"
  proof (cases "fs e")
    case None
    with assms(1) ne(2) have "time e = of_pairs (sample_rows e)"
      by (simp add: wf_epochs_def)
    with None show ?thesis
      by (simp add: wf_time_rows [OF assms(1)])
  next
    case (Some r)
    with assms(1) ne(2) have "time e = divide_nd (of_pairs (sample_rows e)) r"
      by (simp add: wf_epochs_def)
    with Some show ?thesis
      by (simp add: wf_time_rows [OF assms(1)] divide_of_pairs)
  qed
  show "time_rows e \<noteq> []"
    using ne(1) by (simp add: wf_time_rows [OF assms(1)] split: option.splits)
  show "list_all (\<lambda>(a, b). a \<le> b) (time_rows e)"
    by (rule wf_rows_sorted_valid(4) [OF assms(1)])
qed












section \<open>Indexing and the SpikeTrain constructor\<close>

lemma length_chunks: "length (chunks k c xs) = k"
  by (induction k arbitrary: xs) auto

lemma length_sample_rows:
  "length (sample_rows e) = (case shape (samples e) of [k, c] \<Rightarrow> k | _ \<Rightarrow> 0)"
  by (simp add: sample_rows_def length_chunks split: list.splits)

lemma row_int_out_of_range:
  assumes "int (length (sample_rows e)) \<le> i \<or> i < - int (length (sample_rows e))"
  shows "\<exists>x. row_int (samples e) i = Inl x"
  using assms
  by (auto simp: row_int_def length_sample_rows Let_def split: list.splits)

lemma getitem_int_out_of_range:
  assumes "int (length (sample_rows e)) \<le> i \<or> i < - int (length (sample_rows e))"
  shows "EpochArray_getitem e (IdxInt i) = Inr empty_epochs"
proof -
  from row_int_out_of_range [OF assms] obtain x where "row_int (samples e) i = Inl x" ..
  then show ?thesis
    by (simp add: EpochArray_getitem_def init_empty)
qed

lemma getitem_int_never_raises: "\<exists>r. EpochArray_getitem e (IdxInt i) = Inr r"
  by (auto simp: EpochArray_getitem_def init_empty split: sum.splits)

lemma n_epochs_wf:
  assumes "wf_epochs e"
  shows "n_epochs e = Inr (length (sample_rows e))"
proof (cases "isempty e")
  case True
  then have "length (sample_rows e) = 0"
    by (auto simp: isempty_def shape_time [OF assms] length_sample_rows split: list.splits)
  with True show ?thesis
    by (simp add: n_epochs_def)
next
  case False
  have "col (time e) 0 = Inr (map fst (time_rows e))"
    using col_of_pairs0 [of "time_rows e"]
    by (simp add: wf_time_of_pairs(1) [OF assms False, symmetric])
  moreover have "length (time_rows e) = length (sample_rows e)"
    by (simp add: wf_time_rows [OF assms] split: option.splits)
  ultimately show ?thesis
    using False by (simp add: n_epochs_def)
qed

lemma spike_init_rate:
  assumes "SpikeTrain_init s f sp l c m = Inr st"
  shows "valid_rate (st_fs st)"
proof -
  from assms obtain v where "check_fs f = Inr v" "st_fs st = v"
    by (auto simp: SpikeTrain_init_def Let_def init_empty split: sum.splits if_splits option.splits)
  then show ?thesis
    by (simp add: check_fs_valid)
qed

lemma label_of_inverse:
  "label_of l \<noteq> LabelOther" "(case label_of l of LabelStr x \<Rightarrow> Some x | _ \<Rightarrow> None) = l"
  by (cases l; simp add: label_of_def)+

lemma spike_init_empty:
  assumes "valid_rate v"
  shows "SpikeTrain_init (vec []) (fs_of v) None (label_of l) c m = Inr (empty_spikes v l c m)"
proof -
  have "hd (shape (vec [])) = 0" "data (vec []) = []"
    by (simp_all add: vec_def)
  then show ?thesis
    by (simp add: SpikeTrain_init_def squeeze_1d_vec ndim_vec check_fs_of [OF assms]
        label_of_inverse init_empty empty_spikes_def split: option.splits)
qed

lemma spike_slice_beyond:
  assumes "valid_rate (st_fs st)"
    and "int (n_spikes st) \<le> (case start of None \<Rightarrow> 0 | Some k \<Rightarrow> k)"
  shows "SpikeTrain_getitem st (IdxSlice start stop step)
         = Inr (empty_spikes (st_fs st) (label st) (cell_type st) (st_meta st))"
  using assms(2) by (simp add: SpikeTrain_getitem_def spike_init_empty [OF assms(1)])

lemma spike_init_default_support:
  assumes "xs \<noteq> []" and "0 \<le> last xs" and "check_fs f = Inr v" and "l \<noteq> LabelOther"
  shows "SpikeTrain_init (vec xs) f None l c m =
     Inr \<lparr>st_samples = xs,
          st_time = (case v of Some r \<Rightarrow> map (\<lambda>x. x / r) xs | None \<Rightarrow> xs),
          support = \<lparr>samples = of_pairs [(0, last xs)],
                     time = (case v of Some r \<Rightarrow> of_pairs [(0, last xs / r)]
                                      | None \<Rightarrow> of_pairs [(0, last xs)]),
                     fs = v, meta = None\<rparr>,
          st_fs = v, label = (case l of LabelStr x \<Rightarrow> Some x | _ \<Rightarrow> None),
          cell_type = c, st_meta = m\<rparr>"
proof -
  have sup: "EpochArray_init (vec [0, last xs]) f None None =
      Inr \<lparr>samples = of_pairs [(0, last xs)],
           time = (case v of Some r \<Rightarrow> of_pairs [(0, last xs / r)]
                            | None \<Rightarrow> of_pairs [(0, last xs)]),
           fs = v, meta = None\<rparr>"
    using assms(2)
    by (simp add: init_two_vector [OF assms(3)] store_of_pairs divide_of_pairs
        split: option.splits)
  have "hd (shape (vec xs)) > 0" "data (vec xs) = xs"
    using assms(1) by (simp_all add: vec_def)
  then show ?thesis
    using assms(3,4) by (simp add: SpikeTrain_init_def squeeze_1d_vec ndim_vec sup)
qed

section \<open>Properties\<close>

subsection \<open>merge\<close>

text \<open>
  Claim C1 (merge with gap 0 is idempotent, and the result of merge is pairwise
  non-overlapping subject to the gap). The code does not do this: the test of
  line 379 compares each start with the stop of the interval just before it, not with
  the running maximum, and line 392 closes the last run with the last stop. On the
  three intervals [0,10], [1,2], [5,6], which the constructor accepts as they are,
  \<^verbatim>\<open>merge(0)\<close> returns [0,10], [5,6]: the second starts before the first stops. Merging
  that result again gives the single interval [0,6], so merge is not idempotent.
\<close>

theorem merge_overlapping_result:
  "EpochArray_init (of_pairs [(0, 10), (1, 2), (5, 6)]) FsNone None None
     = Inr (epochs_of [(0, 10), (1, 2), (5, 6)])
   \<and> merge (epochs_of [(0, 10), (1, 2), (5, 6)]) 0 = Inr (epochs_of [(0, 10), (5, 6)])
   \<and> gap_separated 0 [(0, 10), (5, 6)] = False
   \<and> merge (epochs_of [(0, 10), (5, 6)]) 0 = Inr (epochs_of [(0, 6)])
   \<and> sample_rows (epochs_of [(0, 6)]) = [(0, 6)]
   \<and> sample_rows (epochs_of [(0, 10), (5, 6)]) = [(0, 10), (5, 6)]"
  by code_simp

subsection \<open>Construction from a vector of starts\<close>

text \<open>
  Claim C2 (a vector of \<open>n\<close> starts without duration gives \<open>n\<close> zero-length
  intervals). The code does not do this: line 81 makes the vector a column, and lines
  83-85 then build one row from its first two entries. Three starts 1, 2, 3 give the
  single interval [1,2]; a single start raises IndexError. The class docstring gives
  the shape \<^verbatim>\<open>(n_epochs,)\<close> as the start time of each epoch.
\<close>

theorem starts_vector_first_two:
  "EpochArray_init (vec [1, 2, 3]) FsNone None None = Inr (epochs_of [(1, 2)])
   \<and> sample_rows (epochs_of [(1, 2)]) = [(1, 2)]
   \<and> EpochArray_init (vec [5]) FsNone None None
       = Inl (IndexError ''index out of bounds for axis 0'')"
  by code_simp

subsection \<open>The two failures of the sampling rate\<close>

text \<open>
  Claim C3 (a non-scalar rate and a non-positive rate fail in two distinguishable
  ways). In both constructors the ValueError of a non-positive rate is raised inside
  the \<^verbatim>\<open>try\<close> and replaced by the TypeError of the bare \<^verbatim>\<open>except\<close>: the caller sees
  the same TypeError in both cases. The rate setter raises the two different errors.
\<close>

theorem rate_failures_coincide:
  "EpochArray_init (of_pairs [(0, 10)]) (FsScalar (- 1)) None None
     = Inl (TypeError ''sampling rate must be a scalar'')
   \<and> EpochArray_init (of_pairs [(0, 10)]) FsNonScalar None None
     = Inl (TypeError ''sampling rate must be a scalar'')
   \<and> SpikeTrain_init (vec [1, 2]) (FsScalar 0) None LabelNone None None
     = Inl (TypeError ''sampling rate must be a scalar'')
   \<and> SpikeTrain_init (vec [1, 2]) FsNonScalar None LabelNone None None
     = Inl (TypeError ''sampling rate must be a scalar'')
   \<and> fs_setter (epochs_of [(0, 10)]) (FsScalar (- 1))
     = Inl (ValueError ''sampling rate must be positive'')
   \<and> fs_setter (epochs_of [(0, 10)]) FsNonScalar
     = Inl (TypeError ''sampling rate must be a scalar'')"
  by code_simp

subsection \<open>Slices of an EpochArray\<close>

text \<open>
  Claim C5 (a slice returns the selected sub-range, and a slice without stop selects
  through the last interval). With \<^verbatim>\<open>idx.stop\<close> absent line 150 sets \<^verbatim>\<open>stop = -1\<close>, and
  line 154 slices up to \<^verbatim>\<open>stop + 1\<close>, which is 0: the result has no interval. With the
  stop given, the same three intervals are returned. The slice branch of
  \<^verbatim>\<open>SpikeTrain.__getitem__\<close> sets the same \<^verbatim>\<open>stop = -1\<close> but uses it as an index, and
  a slice without stop selects through the last point there.
\<close>

theorem slice_without_stop_is_empty:
  "EpochArray_getitem (epochs_of [(0, 1), (2, 3), (4, 5)]) (IdxSlice (Some 0) None None)
     = Inr (epochs_of [])
   \<and> isempty (epochs_of [])
   \<and> sample_rows (epochs_of []) = []
   \<and> EpochArray_getitem (epochs_of [(0, 1), (2, 3), (4, 5)]) (IdxSlice (Some 0) (Some 3) None)
     = Inr (epochs_of [(0, 1), (2, 3), (4, 5)])
   \<and> SpikeTrain_getitem
         \<lparr>st_samples = [1, 2, 3], st_time = [1, 2, 3], support = epochs_of [(0, 3)],
          st_fs = None, label = None, cell_type = None, st_meta = None\<rparr>
         (IdxSlice (Some 1) None None)
     = Inr \<lparr>st_samples = [2, 3], st_time = [2, 3], support = epochs_of [(2, 3)],
            st_fs = None, label = None, cell_type = None, st_meta = None\<rparr>"
  by code_simp

subsection \<open>The example of intersect\<close>

text \<open>
  Claim C6: for \<open>A\<close> the single interval [0,10] and \<open>B\<close> the single interval [5,15],
  both without rate, \<^verbatim>\<open>A.intersect(B, boundaries=True)\<close> is the single interval [5,10],
  and with \<^verbatim>\<open>boundaries=False\<close> the pair emitted is (5,15).
\<close>

theorem intersect_example:
  "EpochArray_init (of_pairs [(0, 10)]) FsNone None None = Inr (epochs_of [(0, 10)])
   \<and> EpochArray_init (of_pairs [(5, 15)]) FsNone None None = Inr (epochs_of [(5, 15)])
   \<and> intersect (epochs_of [(0, 10)]) (epochs_of [(5, 15)]) True None
       = Inr (epochs_of [(5, 10)])
   \<and> sample_rows (epochs_of [(5, 10)]) = [(5, 10)]
   \<and> time_rows (epochs_of [(5, 10)]) = [(5, 10)]
   \<and> intersect_emitted (epochs_of [(0, 10)]) (epochs_of [(5, 15)]) False = Inr [(5, 15)]
   \<and> intersect (epochs_of [(0, 10)]) (epochs_of [(5, 15)]) False None
       = Inr (epochs_of [(5, 15)])"
  by code_simp

subsection \<open>What the constructor guarantees\<close>




subsection \<open>shrink\<close>



subsection \<open>copy\<close>



subsection \<open>Indexing out of range\<close>

text \<open>
  Claim C8: indexing an EpochArray of \<open>n\<close> intervals by an integer \<open>i\<close> outside the valid
  range (\<open>i \<ge> n\<close> or \<open>i < -n\<close>) returns the empty EpochArray and does not raise; indexing
  a SpikeTrain by a slice whose start is at or beyond the number of points returns an
  empty SpikeTrain (no sample, empty support, the rate, label, cell type and meta of the
  original) and does not raise. Indexing an EpochArray by an integer raises for no index
  at all. The instance below is the example of the specification: index 999 on three
  intervals, and the slice 100:200 on five points.
\<close>

theorem index_out_of_range_is_empty:
  "(\<exists>r. EpochArray_getitem e (IdxInt i) = Inr r)
   \<and> (wf_epochs e \<and> n_epochs e = Inr n \<and> (int n \<le> i \<or> i < - int n) \<longrightarrow>
      EpochArray_getitem e (IdxInt i) = Inr empty_epochs)
   \<and> (SpikeTrain_init s f sp l c m = Inr st
        \<and> int (n_spikes st) \<le> (case start of None \<Rightarrow> 0 | Some k \<Rightarrow> k) \<longrightarrow>
      SpikeTrain_getitem st (IdxSlice start stop step)
        = Inr (empty_spikes (st_fs st) (label st) (cell_type st) (st_meta st)))"
proof (intro conjI impI)
  show "\<exists>r. EpochArray_getitem e (IdxInt i) = Inr r"
    by (rule getitem_int_never_raises)
next
  assume a: "wf_epochs e \<and> n_epochs e = Inr n \<and> (int n \<le> i \<or> i < - int n)"
  then have "n = length (sample_rows e)"
    by (auto simp: n_epochs_wf)
  with a show "EpochArray_getitem e (IdxInt i) = Inr empty_epochs"
    by (intro getitem_int_out_of_range) simp
next
  assume a: "SpikeTrain_init s f sp l c m = Inr st
        \<and> int (n_spikes st) \<le> (case start of None \<Rightarrow> 0 | Some k \<Rightarrow> k)"
  then have "valid_rate (st_fs st)"
    by (auto intro: spike_init_rate)
  with a show "SpikeTrain_getitem st (IdxSlice start stop step)
        = Inr (empty_spikes (st_fs st) (label st) (cell_type st) (st_meta st))"
    by (intro spike_slice_beyond) simp_all
qed


theorem index_out_of_range_is_empty_witness:
  "wf_epochs (epochs_of [(0, 1), (2, 3), (4, 5)])
   \<and> n_epochs (epochs_of [(0, 1), (2, 3), (4, 5)]) = Inr 3
   \<and> EpochArray_getitem (epochs_of [(0, 1), (2, 3), (4, 5)]) (IdxInt 999) = Inr empty_epochs
   \<and> SpikeTrain_init (vec [1, 2, 3, 4, 5]) (FsScalar 2) None (LabelStr ''unit 7'') None None
       = Inr \<lparr>st_samples = [1, 2, 3, 4, 5], st_time = [1 / 2, 1, 3 / 2, 2, 5 / 2],
              support = \<lparr>samples = of_pairs [(0, 5)], time = of_pairs [(0, 5 / 2)],
                         fs = Some 2, meta = None\<rparr>,
              st_fs = Some 2, label = Some ''unit 7'', cell_type = None, st_meta = None\<rparr>
   \<and> SpikeTrain_getitem
         \<lparr>st_samples = [1, 2, 3, 4, 5], st_time = [1 / 2, 1, 3 / 2, 2, 5 / 2],
          support = \<lparr>samples = of_pairs [(0, 5)], time = of_pairs [(0, 5 / 2)],
                     fs = Some 2, meta = None\<rparr>,
          st_fs = Some 2, label = Some ''unit 7'', cell_type = None, st_meta = None\<rparr>
         (IdxSlice (Some 100) (Some 200) None)
       = Inr (empty_spikes (Some 2) (Some ''unit 7'') None None)"
proof -
  let ?st = "\<lparr>st_samples = [1, 2, 3, 4, 5], st_time = [1 / 2, 1, 3 / 2, 2, 5 / 2],
              support = \<lparr>samples = of_pairs [(0, 5)], time = of_pairs [(0, 5 / 2)],
                         fs = Some 2, meta = None\<rparr>,
              st_fs = Some 2, label = Some ''unit 7'', cell_type = None, st_meta = None\<rparr>"
  have h1: "wf_epochs (epochs_of [(0, 1), (2, 3), (4, 5)])
    \<and> n_epochs (epochs_of [(0, 1), (2, 3), (4, 5)]) = Inr 3"
    by code_simp
  have h2: "SpikeTrain_init (vec [1, 2, 3, 4, 5]) (FsScalar 2) None (LabelStr ''unit 7'') None None
       = Inr ?st"
    by code_simp
  have h3: "int (n_spikes ?st) \<le> (case Some 100 of None \<Rightarrow> 0 | Some k \<Rightarrow> k)"
    by code_simp
  have h0: "int 3 \<le> 999 \<or> 999 < - int 3"
    by simp
  from index_out_of_range_is_empty [where e = "epochs_of [(0, 1), (2, 3), (4, 5)]"
      and n = 3 and i = 999 and s = "vec [1, 2, 3, 4, 5]" and f = "FsScalar 2" and sp = None
      and l = "LabelStr ''unit 7''" and c = None and m = None and st = ?st
      and start = "Some 100" and stop = "Some 200" and step = None]
  have g1: "EpochArray_getitem (epochs_of [(0, 1), (2, 3), (4, 5)]) (IdxInt 999)
            = Inr empty_epochs"
    and g2: "SpikeTrain_getitem ?st (IdxSlice (Some 100) (Some 200) None)
            = Inr (empty_spikes (st_fs ?st) (label ?st) (cell_type ?st) (st_meta ?st))"
    using h0 h1 h2 h3 by blast+
  from g2 have "SpikeTrain_getitem ?st (IdxSlice (Some 100) (Some 200) None)
            = Inr (empty_spikes (Some 2) (Some ''unit 7'') None None)"
    by simp
  with g1 h1 h2 show ?thesis
    by blast
qed

subsection \<open>The default support of a SpikeTrain\<close>

text \<open>
  Claim C4, as amended: for a non-empty vector of points whose last sample is not
  negative, built without a support (rate absent or positive, label absent or a string),
  the default support is the single interval from 0 to the last sample of the vector,
  in time from 0 to that sample divided by the rate. The class docstring says so
  (``Default is [0, last spike] inclusive'').
\<close>

theorem default_support_from_zero:
  assumes "xs \<noteq> []" and "0 \<le> last xs" and "check_fs f = Inr v" and "l \<noteq> LabelOther"
  shows "\<exists>st. SpikeTrain_init (vec xs) f None l c m = Inr st
            \<and> sample_rows (support st) = [(0, last xs)]
            \<and> time_rows (support st) = [(0, case v of None \<Rightarrow> last xs | Some r \<Rightarrow> last xs / r)]
            \<and> fs (support st) = v"
  unfolding spike_init_default_support [OF assms]
  by (cases v) (simp_all add: sample_rows_of_pairs time_rows_of_pairs)

theorem default_support_from_zero_witness:
  "[3, 7 :: real] \<noteq> [] \<and> 0 \<le> last [3, 7 :: real] \<and> check_fs (FsScalar 2) = Inr (Some 2)
   \<and> LabelNone \<noteq> LabelOther
   \<and> (\<exists>st. SpikeTrain_init (vec [3, 7]) (FsScalar 2) None LabelNone None None = Inr st
            \<and> sample_rows (support st) = [(0, 7)]
            \<and> time_rows (support st) = [(0, 7 / 2)]
            \<and> fs (support st) = Some 2)"
proof -
  have h: "[3, 7 :: real] \<noteq> []" "0 \<le> last [3, 7 :: real]"
    "check_fs (FsScalar 2) = Inr (Some 2)" "LabelNone \<noteq> LabelOther"
    by code_simp+
  from default_support_from_zero [OF h, of None None] h show ?thesis
    by simp
qed

text \<open>
  Claim C4 as stated (the default support spans from the first point to the last) fails:
  for the points 3 and 7 the support is [0,7], not [3,7]. With a negative last sample
  the constructor of the support raises.
\<close>

theorem default_support_not_from_first_point:
  "SpikeTrain_init (vec [3, 7]) FsNone None LabelNone None None
     = Inr \<lparr>st_samples = [3, 7], st_time = [3, 7], support = epochs_of [(0, 7)],
            st_fs = None, label = None, cell_type = None, st_meta = None\<rparr>
   \<and> sample_rows (epochs_of [(0, 7)]) = [(0, 7)]
   \<and> sample_rows (epochs_of [(0, 7)]) \<noteq> [(3, 7)]
   \<and> SpikeTrain_init (vec [3, - 7]) FsNone None LabelNone None None
     = Inl (ValueError ''start must be less than or equal to stop'')"
  by code_simp

end
